theory Spec2Isabelle
  imports Main "HOL-Library.Word" "HOL-Library.Sublist"
begin

section \<open>Strings\<close>

text \<open>
  A JavaScript string is a sequence of UTF-16 code units: \<open>length\<close> counts code units
  and \<open>substring\<close> cuts between them. A literal of the source is written \<open>js ''...''\<close>.
\<close>

type_synonym js_string = "16 word list"

definition js :: "string \<Rightarrow> js_string" where
  "js s = map of_char s"

text \<open>\<open>s.includes(t)\<close>: \<open>t\<close> occurs in \<open>s\<close> as a contiguous run.\<close>

definition includes_js :: "js_string \<Rightarrow> js_string \<Rightarrow> bool" where
  "includes_js s t = sublist t s"

text \<open>\<open>s.substring(0, n)\<close> for \<open>n \<ge> 0\<close>.\<close>

definition substring0 :: "js_string \<Rightarrow> nat \<Rightarrow> js_string" where
  "substring0 s n = take n s"

text \<open>\<open>xs.slice(-n)\<close>: the last \<open>n\<close> elements, all of them when there are fewer.\<close>

definition slice_last :: "nat \<Rightarrow> 'a list \<Rightarrow> 'a list" where
  "slice_last n xs = drop (length xs - n) xs"

section \<open>Data model\<close>

text \<open>
  The rows of the two tables. Identifiers are generated by the store and opaque to the
  program; timestamps are points of a logical clock. A history row is the projection
  \<open>role, content, created_at\<close> that \<open>getChatHistory\<close> selects; a full message row
  extends it.
\<close>

record chat_session =
  id_sess :: nat
  user_id :: js_string
  title :: js_string
  created_at_sess :: nat
  updated_at :: nat

record history_row =
  role :: js_string
  content :: js_string
  created_at :: nat

record chat_message = history_row +
  id_msg :: nat
  chat_id :: nat

section \<open>Title derivation and the context builder\<close>

text \<open>
  The title computed in the \<open>POST /chat\<close> handler:
  \<^verbatim>\<open>message.length > 50 ? message.substring(0, 50) + "..." : message\<close>
\<close>

definition deriveTitle :: "js_string \<Rightarrow> js_string" where
  "deriveTitle message =
     (if length message > 50 then substring0 message 50 @ js ''...'' else message)"

text \<open>
  \<open>buildContextPrompt\<close>: the prompt is accumulated by \<open>+=\<close>; the \<open>forEach\<close> over the
  recent history is a left fold.
\<close>

definition buildContextPrompt :: "js_string \<Rightarrow> ('a history_row_scheme) list \<Rightarrow> js_string" where
  "buildContextPrompt currentMessage chatHistory =
     (let contextPrompt = js ''You are a helpful AI assistant. '';
          contextPrompt =
            (if length chatHistory > 0 then
               let contextPrompt =
                     contextPrompt @ js ''Here's our conversation history for context:\<newline>\<newline>'';
                   recentHistory = slice_last 10 chatHistory;
                   contextPrompt =
                     foldl (\<lambda>acc msg.
                              acc @ (if role msg = js ''user'' then js ''User'' else js ''Assistant'')
                                  @ js '': '' @ content msg @ js ''\<newline>'')
                           contextPrompt recentHistory
               in contextPrompt
                    @ js ''\<newline>Based on this conversation context, please provide a helpful and relevant response to: ''
             else
               contextPrompt @ js ''Please provide a clear, concise, and helpful response to: '')
      in contextPrompt @ currentMessage)"

section \<open>The store\<close>

text \<open>
  The two tables behind the database client, in insertion order, with the counter of
  generated identifiers and a logical clock for the timestamps the store and the server
  assign. The client is an external service: every call either answers with data,
  answers with an error object, or throws. Which of the three happens is not decided by
  the program, so each call takes it as a parameter; a call that fails leaves the tables
  as they were.
\<close>

text \<open>
  Modelled from the spec: the table definitions are not in the sources. The data model
  declares \<open>chat_id\<close> a foreign key to the session table, and a message's session
  must exist when the message is written. What the key does when a referenced session
  is deleted is not stated, so it is a parameter of the store: the deletion is refused
  while messages refer to the session, or it takes those messages with it.
\<close>

datatype fk_action = Restrict | Cascade

record store =
  chat_sessions :: "chat_session list"
  chat_messages :: "chat_message list"
  next_id :: nat
  clock :: nat
  on_delete :: fk_action

datatype fault = NoFault | ErrorResult js_string | Thrown js_string

datatype 'a outcome = Data 'a | Error js_string | Throws js_string

definition respond :: "fault \<Rightarrow> 'a \<Rightarrow> 'a outcome" where
  "respond f d = (case f of NoFault \<Rightarrow> Data d | ErrorResult e \<Rightarrow> Error e | Thrown e \<Rightarrow> Throws e)"

text \<open>
  \<^verbatim>\<open>from("chat_messages").select("role, content, created_at").eq("chat_id", chatId)
    .order("created_at", { ascending: true }).limit(limit)\<close>
  The sort is stable: rows with equal timestamps keep their insertion order.
\<close>

definition select_history :: "store \<Rightarrow> nat \<Rightarrow> nat \<Rightarrow> fault \<Rightarrow> history_row list outcome" where
  "select_history st chatId limit f =
     respond f
       (map (\<lambda>m. \<lparr>role = role m, content = content m, created_at = created_at m\<rparr>)
          (take limit (sort_key created_at (filter (\<lambda>m. chat_id m = chatId) (chat_messages st)))))"

text \<open>
  \<^verbatim>\<open>from("chat_messages").select("*").eq("chat_id", chatId)
    .order("created_at", { ascending: true })\<close>
\<close>

definition select_messages :: "store \<Rightarrow> nat \<Rightarrow> fault \<Rightarrow> chat_message list outcome" where
  "select_messages st chatId f =
     respond f (sort_key created_at (filter (\<lambda>m. chat_id m = chatId) (chat_messages st)))"

text \<open>
  \<^verbatim>\<open>from("chat_sessions").select("*").eq("id", chatId).eq("user_id", userId).single()\<close>
  \<open>single\<close> answers with an error unless exactly one row matches.
\<close>

definition select_session_single :: "store \<Rightarrow> nat \<Rightarrow> js_string \<Rightarrow> fault \<Rightarrow> chat_session outcome" where
  "select_session_single st chatId uid f =
     (case f of
        NoFault \<Rightarrow>
          (case filter (\<lambda>s. id_sess s = chatId \<and> user_id s = uid) (chat_sessions st) of
             [s] \<Rightarrow> Data s
           | _ \<Rightarrow> Error (js ''JSON object requested, multiple (or no) rows returned''))
      | ErrorResult e \<Rightarrow> Error e
      | Thrown e \<Rightarrow> Throws e)"

text \<open>
  \<^verbatim>\<open>from("chat_sessions").select("*").eq("user_id", userId)
    .order("updated_at", { ascending: false })\<close>, with and without \<^verbatim>\<open>.limit(1)\<close>.
\<close>

definition select_sessions :: "store \<Rightarrow> js_string \<Rightarrow> fault \<Rightarrow> chat_session list outcome" where
  "select_sessions st uid f =
     respond f (rev (sort_key updated_at (filter (\<lambda>s. user_id s = uid) (chat_sessions st))))"

definition select_recent_session :: "store \<Rightarrow> js_string \<Rightarrow> fault \<Rightarrow> chat_session list outcome" where
  "select_recent_session st uid f =
     respond f (take 1 (rev (sort_key updated_at (filter (\<lambda>s. user_id s = uid) (chat_sessions st)))))"

text \<open>
  \<^verbatim>\<open>from("chat_sessions").insert([{ user_id, title }]).select()\<close>: the store
  generates the identifier and both timestamps and answers with the one inserted row
  (the \<open>data[0]\<close> of the callers).
\<close>

definition insert_session ::
  "store \<Rightarrow> js_string \<Rightarrow> js_string \<Rightarrow> fault \<Rightarrow> (chat_session \<times> store) outcome" where
  "insert_session st uid t f =
     (let row = \<lparr>id_sess = next_id st, user_id = uid, title = t,
                 created_at_sess = clock st, updated_at = clock st\<rparr>
      in respond f
           (row, st\<lparr>chat_sessions := chat_sessions st @ [row],
                      next_id := next_id st + 1, clock := clock st + 1\<rparr>))"

text \<open>
  \<^verbatim>\<open>from("chat_messages").insert([{ chat_id, role, content }]).select()\<close>: refused
  by the foreign key when no session has the identifier.
\<close>

definition fk_violation :: js_string where
  "fk_violation = js ''violates foreign key constraint''"

definition insert_message ::
  "store \<Rightarrow> nat \<Rightarrow> js_string \<Rightarrow> js_string \<Rightarrow> fault \<Rightarrow> (chat_message \<times> store) outcome" where
  "insert_message st chatId r c f =
     (let row = \<lparr>role = r, content = c, created_at = clock st,
                 id_msg = next_id st, chat_id = chatId\<rparr>
      in case f of
           NoFault \<Rightarrow>
             if list_ex (\<lambda>s. id_sess s = chatId) (chat_sessions st) then
               Data (row, st\<lparr>chat_messages := chat_messages st @ [row],
                              next_id := next_id st + 1, clock := clock st + 1\<rparr>)
             else Error fk_violation
         | ErrorResult e \<Rightarrow> Error e
         | Thrown e \<Rightarrow> Throws e)"

text \<open>
  \<^verbatim>\<open>from("chat_sessions").update({ updated_at: new Date().toISOString() }).eq("id", chatId)\<close>
\<close>

definition update_session :: "store \<Rightarrow> nat \<Rightarrow> fault \<Rightarrow> store outcome" where
  "update_session st chatId f =
     respond f
       (st\<lparr>chat_sessions :=
              map (\<lambda>s. if id_sess s = chatId then s\<lparr>updated_at := clock st\<rparr> else s)
                  (chat_sessions st),
            clock := clock st + 1\<rparr>)"

text \<open>
  \<^verbatim>\<open>from("chat_messages").delete().eq("chat_id", chatId)\<close> and
  \<^verbatim>\<open>from("chat_sessions").delete().eq("id", chatId)\<close>. The second is refused
  under \<open>Restrict\<close> while a message refers to the session; otherwise no message
  referring to the deleted session is left.
\<close>

definition delete_messages :: "store \<Rightarrow> nat \<Rightarrow> fault \<Rightarrow> store outcome" where
  "delete_messages st chatId f =
     respond f (st\<lparr>chat_messages := filter (\<lambda>m. chat_id m \<noteq> chatId) (chat_messages st)\<rparr>)"

definition delete_session :: "store \<Rightarrow> nat \<Rightarrow> fault \<Rightarrow> store outcome" where
  "delete_session st chatId f =
     (case f of
        NoFault \<Rightarrow>
          if on_delete st = Restrict \<and> list_ex (\<lambda>m. chat_id m = chatId) (chat_messages st) then
            Error fk_violation
          else
            Data (st\<lparr>chat_sessions := filter (\<lambda>s. id_sess s \<noteq> chatId) (chat_sessions st),
                      chat_messages := filter (\<lambda>m. chat_id m \<noteq> chatId) (chat_messages st)\<rparr>)
      | ErrorResult e \<Rightarrow> Error e
      | Thrown e \<Rightarrow> Throws e)"

section \<open>The store helpers of the server\<close>

text \<open>
  Each helper wraps one or two store calls in \<^verbatim>\<open>try { ... if (error) ... } catch\<close>;
  the error answer and the exception take the same way out.
\<close>

definition getChatHistory :: "store \<Rightarrow> nat \<Rightarrow> nat \<Rightarrow> fault \<Rightarrow> history_row list" where
  "getChatHistory st chatId limit f =
     (case select_history st chatId limit f of
        Data rows \<Rightarrow> rows
      | Error e \<Rightarrow> []
      | Throws e \<Rightarrow> [])"

definition saveMessage ::
  "store \<Rightarrow> nat \<Rightarrow> js_string \<Rightarrow> js_string \<Rightarrow> fault \<Rightarrow> chat_message option \<times> store" where
  "saveMessage st chatId r c f =
     (case insert_message st chatId r c f of
        Data (row, st') \<Rightarrow> (Some row, st')
      | Error e \<Rightarrow> (None, st)
      | Throws e \<Rightarrow> (None, st))"

text \<open>
  \<open>getOrCreateChatSession(userId, title = null)\<close>: \<open>!title\<close> holds for \<open>null\<close> and for
  the empty string; only then is the most recently updated session looked for.
\<close>

definition getOrCreateChatSession ::
  "store \<Rightarrow> js_string \<Rightarrow> js_string option \<Rightarrow> fault \<Rightarrow> fault \<Rightarrow> chat_session option \<times> store" where
  "getOrCreateChatSession st uid t f_recent f_create =
     (let create =
            (case insert_session st uid
                    (case t of None \<Rightarrow> js ''New Chat''
                             | Some s \<Rightarrow> if s = [] then js ''New Chat'' else s)
                    f_create of
               Data (row, st') \<Rightarrow> (Some row, st')
             | Error e \<Rightarrow> (None, st)
             | Throws e \<Rightarrow> (None, st))
      in if t = None \<or> t = Some [] then
           (case select_recent_session st uid f_recent of
              Error e \<Rightarrow> (None, st)
            | Throws e \<Rightarrow> (None, st)
            | Data rows \<Rightarrow> (case rows of r # _ \<Rightarrow> (Some r, st) | [] \<Rightarrow> create))
         else create)"

definition updateChatSession :: "store \<Rightarrow> nat \<Rightarrow> fault \<Rightarrow> store" where
  "updateChatSession st chatId f =
     (case update_session st chatId f of
        Data st' \<Rightarrow> st'
      | Error e \<Rightarrow> st
      | Throws e \<Rightarrow> st)"

section \<open>The generation backend\<close>

text \<open>
  What \<open>fetch\<close> and \<open>response.json()\<close> can give the handler: \<open>fetch\<close> throws, or
  answers with \<open>ok\<close>, \<open>status\<close>, \<open>statusText\<close> and a body; the body fails to
  parse, is \<open>null\<close>, or is an object with an optional \<open>error\<close> (whose \<open>message\<close>
  may be undefined) and an optional list of candidates. Of a candidate the handler reads
  \<open>finishReason\<close> and \<open>content?.parts?.[0]?.text\<close>.
\<close>

record candidate =
  finishReason :: "js_string option"
  text_part :: "js_string option"

record gemini_data =
  error_message :: "js_string option option"
  candidates :: "candidate list option"

datatype json_body = BadJson js_string | JsonNull | JsonObj gemini_data

datatype gemini_outcome =
    FetchThrows js_string
  | HttpResponse (ok: bool) (status: nat) (statusText: js_string) (body: json_body)

text \<open>The decimal digits of a number, as template literals print it.\<close>

function decimal :: "nat \<Rightarrow> js_string" where
  "decimal n = (if n < 10 then [of_nat (48 + n)] else decimal (n div 10) @ [of_nat (48 + n mod 10)])"
  by pat_completeness auto
termination
  by (relation "measure id") auto

text \<open>
  Reading property \<open>p\<close> of \<open>null\<close> or \<open>undefined\<close> throws a \<open>TypeError\<close>, with the
  message Node's engine gives it.
\<close>

definition typeError :: "string \<Rightarrow> string \<Rightarrow> js_string" where
  "typeError v p = js ''Cannot read properties of '' @ js v @ js '' (reading '' @ [0x27] @ js p @ [0x27] @ js '')''"

text \<open>
  Lines 288 to 325 of the handler: from the answer of the backend to \<open>aiResponse\<close>, or
  to the message of the \<open>Error\<close> thrown (\<open>Inl\<close>).
\<close>

definition aiResponse_of :: "gemini_outcome \<Rightarrow> js_string + js_string" where
  "aiResponse_of r =
     (case r of
        FetchThrows e \<Rightarrow> Inl e
      | HttpResponse is_ok code stext b \<Rightarrow>
          (case b of
             BadJson e \<Rightarrow> Inl e
           | JsonNull \<Rightarrow> Inl (typeError ''null'' (if \<not> is_ok then ''error'' else ''candidates''))
           | JsonObj d \<Rightarrow>
               if \<not> is_ok then
                 (case error_message d of
                    Some None \<Rightarrow> Inl (typeError ''undefined'' ''includes'')
                  | Some (Some msg) \<Rightarrow>
                      if includes_js msg (js ''API key'') then
                        Inl (js ''Invalid or expired API key. Please check your Gemini API key.'')
                      else if includes_js msg (js ''quota'') then
                        Inl (js ''API quota exceeded. Please check your Gemini API usage.'')
                      else Inl (if msg = [] then js ''Gemini API error'' else msg)
                  | None \<Rightarrow> Inl (js ''HTTP '' @ decimal code @ js '': '' @ stext))
               else
                 (case candidates d of
                    None \<Rightarrow> Inl (js ''No response generated by Gemini API'')
                  | Some [] \<Rightarrow> Inl (js ''No response generated by Gemini API'')
                  | Some (candidate # _) \<Rightarrow>
                      if finishReason candidate = Some (js ''SAFETY'') then
                        Inl (js ''Content was filtered for safety reasons. Please try rephrasing your message.'')
                      else
                        (case text_part candidate of
                           None \<Rightarrow> Inr (js ''Sorry, I couldn't generate a response.'')
                         | Some t \<Rightarrow>
                             Inr (if t = [] then js ''Sorry, I couldn't generate a response.'' else t)))))"

section \<open>The request handlers\<close>

text \<open>
  A response is a status and a JSON body. A request body field that is absent, \<open>null\<close>
  or the empty string is falsy for the handler; the empty string stands for all three.
  A missing or \<open>null\<close> \<open>chatId\<close> is \<open>None\<close>.
\<close>

datatype body =
    ChatBody (reply: js_string) (chatId_of: nat) (contextUsed: bool)
  | ErrorBody (error: js_string) (details: "js_string option")
  | SessionsBody "chat_session list"
  | MessagesBody "chat_message list"
  | MessageBody js_string

type_synonym response = "nat \<times> body"

record chat_request =
  userId :: js_string
  message :: js_string
  chatId :: "nat option"

text \<open>
  What the world does during one chat turn: the fault of each store call the turn can
  make, in the order of the calls, and the answer of the backend to a prompt.
\<close>

record chat_env =
  lookup_fault :: fault
  recent_fault :: fault
  create_fault :: fault
  save_user_fault :: fault
  history_fault :: fault
  gemini :: "js_string \<Rightarrow> gemini_outcome"
  save_bot_fault :: fault
  touch_fault :: fault

text \<open>
  Lines 214 to 230: the session of the turn. The lookup is made for a truthy \<open>chatId\<close>
  only (identifiers are numbers here, of which 0 is falsy). \<open>Inl\<close> is an exception
  thrown by the lookup, which the handler's \<open>catch\<close> receives; the lookup's error answer is dropped
  (\<open>const { data } = ...\<close>).
\<close>

definition resolve_session ::
  "chat_env \<Rightarrow> store \<Rightarrow> chat_request \<Rightarrow> (js_string + chat_session option) \<times> store" where
  "resolve_session env st req =
     (let looked =
            (case chatId req of
               None \<Rightarrow> Inr None
             | Some c \<Rightarrow>
                 if c = 0 then Inr None
                 else
                   (case select_session_single st c (userId req) (lookup_fault env) of
                      Data s \<Rightarrow> Inr (Some s)
                    | Error e \<Rightarrow> Inr None
                    | Throws e \<Rightarrow> Inl e))
      in case looked of
           Inl e \<Rightarrow> (Inl e, st)
         | Inr (Some s) \<Rightarrow> (Inr (Some s), st)
         | Inr None \<Rightarrow>
             (let (chatSession, st') =
                    getOrCreateChatSession st (userId req) (Some (deriveTitle (message req)))
                       (recent_fault env) (create_fault env)
              in (Inr chatSession, st')))"

text \<open>
  \<open>POST /chat\<close>. The result is the response, the store after the turn and the prompts
  sent to the generation backend during the turn.
\<close>

definition post_chat ::
  "chat_env \<Rightarrow> store \<Rightarrow> chat_request \<Rightarrow> response \<times> store \<times> js_string list" where
  "post_chat env st req =
     (if userId req = [] \<or> message req = [] then
        ((400, ErrorBody (js ''userId and message are required'') None), st, [])
      else
        (case resolve_session env st req of
           (Inl e, st1) \<Rightarrow>
             ((500, ErrorBody (js ''Internal server error'') (Some e)), st1, [])
         | (Inr None, st1) \<Rightarrow>
             ((500, ErrorBody (js ''Failed to create/get chat session'') None), st1, [])
         | (Inr (Some chatSession), st1) \<Rightarrow>
             (let (saved, st2) =
                    saveMessage st1 (id_sess chatSession) (js ''user'') (message req)
                      (save_user_fault env);
                  chatHistory = getChatHistory st2 (id_sess chatSession) 10 (history_fault env);
                  contextPrompt = buildContextPrompt (message req) chatHistory
              in case aiResponse_of (gemini env contextPrompt) of
                   Inl e \<Rightarrow>
                     ((500, ErrorBody (js ''Internal server error'') (Some e)), st2,
                      [contextPrompt])
                 | Inr aiResponse \<Rightarrow>
                     (let (saved', st3) =
                            saveMessage st2 (id_sess chatSession) (js ''bot'') aiResponse
                              (save_bot_fault env);
                          st4 = updateChatSession st3 (id_sess chatSession) (touch_fault env)
                      in ((200, ChatBody aiResponse (id_sess chatSession) (length chatHistory > 0)),
                          st4, [contextPrompt])))))"

text \<open>\<open>GET /chat-sessions/:userId\<close> and \<open>GET /chat-messages/:chatId\<close>.\<close>

definition get_chat_sessions :: "store \<Rightarrow> js_string \<Rightarrow> fault \<Rightarrow> response" where
  "get_chat_sessions st uid f =
     (case select_sessions st uid f of
        Data rows \<Rightarrow> (200, SessionsBody rows)
      | Error e \<Rightarrow> (500, ErrorBody (js ''Failed to fetch chat sessions'') None)
      | Throws e \<Rightarrow> (500, ErrorBody (js ''Failed to fetch chat sessions'') None))"

definition get_chat_messages :: "store \<Rightarrow> nat \<Rightarrow> fault \<Rightarrow> response" where
  "get_chat_messages st c f =
     (case select_messages st c f of
        Data rows \<Rightarrow> (200, MessagesBody rows)
      | Error e \<Rightarrow> (500, ErrorBody (js ''Failed to fetch chat messages'') None)
      | Throws e \<Rightarrow> (500, ErrorBody (js ''Failed to fetch chat messages'') None))"

text \<open>
  \<open>DELETE /chat-sessions/:chatId\<close>. The answer of the first call is awaited and not
  looked at; an exception from it reaches the \<open>catch\<close>. The result is the response,
  the store afterwards and the store calls made, in order.
\<close>

datatype store_call = DeleteMessages nat | DeleteSession nat

definition delete_chat_session ::
  "store \<Rightarrow> nat \<Rightarrow> fault \<Rightarrow> fault \<Rightarrow> response \<times> store \<times> store_call list" where
  "delete_chat_session st c f_messages f_session =
     (let failed = (500, ErrorBody (js ''Failed to delete chat session'') None);
          second = (\<lambda>st1.
            (case delete_session st1 c f_session of
               Data st2 \<Rightarrow>
                 ((200, MessageBody (js ''Chat session deleted successfully'')), st2,
                  [DeleteMessages c, DeleteSession c])
             | Error e \<Rightarrow> (failed, st1, [DeleteMessages c, DeleteSession c])
             | Throws e \<Rightarrow> (failed, st1, [DeleteMessages c, DeleteSession c])))
      in case delete_messages st c f_messages of
           Throws e \<Rightarrow> (failed, st, [DeleteMessages c])
         | Error e \<Rightarrow> second st
         | Data st1 \<Rightarrow> second st1)"

text \<open>
  The store generates identifiers from a counter: the session identifiers are pairwise
  different and below the counter.
\<close>

definition ids_fresh :: "store \<Rightarrow> bool" where
  "ids_fresh st =
     (distinct (map id_sess (chat_sessions st)) \<and>
      list_all (\<lambda>i. i < next_id st) (map id_sess (chat_sessions st)))"

section \<open>Concrete scenarios\<close>

text \<open>
  A backend that answers every prompt with one candidate that finished normally, a world
  without faults, the empty store, the store after one turn of user \<open>u1\<close>, a store
  whose one session holds eleven messages; then a backend whose candidate was stopped by
  the safety filter, worlds in which the session insert or the history read fails, a
  store with the sessions of two users, and a first request.
\<close>

definition okReply :: "js_string \<Rightarrow> gemini_outcome" where
  "okReply t = HttpResponse True 200 (js ''OK'')
     (JsonObj \<lparr>error_message = None,
               candidates = Some [\<lparr>finishReason = Some (js ''STOP''), text_part = Some t\<rparr>]\<rparr>)"

definition env0 :: chat_env where
  "env0 = \<lparr>lookup_fault = NoFault, recent_fault = NoFault, create_fault = NoFault,
           save_user_fault = NoFault, history_fault = NoFault,
           gemini = (\<lambda>p. okReply (js ''Hi'')),
           save_bot_fault = NoFault, touch_fault = NoFault\<rparr>"

definition st0 :: store where
  "st0 = \<lparr>chat_sessions = [], chat_messages = [], next_id = 0, clock = 0, on_delete = Restrict\<rparr>"

definition st_u1 :: store where
  "st_u1 = \<lparr>chat_sessions =
              [\<lparr>id_sess = 0, user_id = js ''u1'', title = js ''Hello'',
                created_at_sess = 0, updated_at = 3\<rparr>],
            chat_messages =
              [\<lparr>role = js ''user'', content = js ''Hello'', created_at = 1, id_msg = 1, chat_id = 0\<rparr>,
               \<lparr>role = js ''bot'', content = js ''Hi'', created_at = 2, id_msg = 2, chat_id = 0\<rparr>],
            next_id = 3, clock = 4, on_delete = Restrict\<rparr>"

definition st11 :: store where
  "st11 = \<lparr>chat_sessions =
              [\<lparr>id_sess = 0, user_id = js ''u1'', title = js ''Hello'',
                created_at_sess = 0, updated_at = 11\<rparr>],
            chat_messages =
              map (\<lambda>i. \<lparr>role = js ''user'', content = decimal i, created_at = i,
                         id_msg = i, chat_id = 0\<rparr>) [1..<12],
            next_id = 12, clock = 12, on_delete = Restrict\<rparr>"

definition safetyReply :: gemini_outcome where
  "safetyReply = HttpResponse True 200 (js ''OK'')
     (JsonObj \<lparr>error_message = None,
               candidates = Some [\<lparr>finishReason = Some (js ''SAFETY''), text_part = None\<rparr>]\<rparr>)"

definition env_safety :: chat_env where
  "env_safety = env0\<lparr>gemini := (\<lambda>p. safetyReply)\<rparr>"

definition env_no_create :: chat_env where
  "env_no_create = env0\<lparr>create_fault := ErrorResult (js ''insert failed'')\<rparr>"

definition env_no_history :: chat_env where
  "env_no_history = env0\<lparr>history_fault := Thrown (js ''fetch failed'')\<rparr>"

definition st_two :: store where
  "st_two = \<lparr>chat_sessions =
               [\<lparr>id_sess = 0, user_id = js ''u1'', title = js ''Hello'',
                 created_at_sess = 0, updated_at = 3\<rparr>,
                \<lparr>id_sess = 3, user_id = js ''u2'', title = js ''Hey'',
                 created_at_sess = 4, updated_at = 7\<rparr>],
             chat_messages =
               [\<lparr>role = js ''user'', content = js ''Hello'', created_at = 1, id_msg = 1, chat_id = 0\<rparr>,
                \<lparr>role = js ''bot'', content = js ''Hi'', created_at = 2, id_msg = 2, chat_id = 0\<rparr>,
                \<lparr>role = js ''user'', content = js ''Hey'', created_at = 5, id_msg = 4, chat_id = 3\<rparr>,
                \<lparr>role = js ''bot'', content = js ''Hi'', created_at = 6, id_msg = 5, chat_id = 3\<rparr>],
             next_id = 6, clock = 8, on_delete = Restrict\<rparr>"

definition hello :: chat_request where
  "hello = \<lparr>userId = js ''u1'', message = js ''Hello'', chatId = None\<rparr>"

section \<open>Properties of the pure functions\<close>

lemma foldl_append_concat:
  "foldl (\<lambda>acc x. acc @ f x) a xs = a @ concat (map f xs)"
  by (induction xs arbitrary: a) simp_all

lemma buildContextPrompt_empty:
  "buildContextPrompt m [] =
     js ''You are a helpful AI assistant. ''
       @ js ''Please provide a clear, concise, and helpful response to: '' @ m"
  by (simp add: buildContextPrompt_def)

lemma buildContextPrompt_nonempty:
  "h \<noteq> [] \<Longrightarrow>
   buildContextPrompt m h =
     js ''You are a helpful AI assistant. ''
       @ js ''Here's our conversation history for context:\<newline>\<newline>''
       @ concat (map (\<lambda>msg. (if role msg = js ''user'' then js ''User'' else js ''Assistant'')
                               @ js '': '' @ content msg @ js ''\<newline>'')
                     (slice_last 10 h))
       @ js ''\<newline>Based on this conversation context, please provide a helpful and relevant response to: ''
       @ m"
  by (simp add: buildContextPrompt_def Let_def foldl_append_concat)

text \<open>
  Claim C5, as the code has it: a message of at most 50 code units is its own title; a
  longer one is cut to its first 50 code units, followed by three full stops
  (U+002E three times, not the single character U+2026).
\<close>

theorem deriveTitle_three_dots:
  "(length msg \<le> 50 \<longrightarrow> deriveTitle msg = msg) \<and>
   (length msg > 50 \<longrightarrow>
      deriveTitle msg = take 50 msg @ [0x2E, 0x2E, 0x2E] \<and>
      length (deriveTitle msg) = 53)"
  by (simp add: deriveTitle_def substring0_def js_def)

theorem deriveTitle_three_dots_witness:
  "deriveTitle (js ''Hello'') = js ''Hello'' \<and>
   deriveTitle (replicate 60 0x61) = replicate 50 0x61 @ [0x2E, 0x2E, 0x2E]"
  using deriveTitle_three_dots [of "js ''Hello''"]
        deriveTitle_three_dots [of "replicate 60 0x61"]
  by (simp add: js_def)

text \<open>
  Claim C5 as stated fails: for a message of 51 letters \<open>a\<close> the title is not the first
  50 code units followed by the one ellipsis character U+2026.
\<close>

theorem deriveTitle_ellipsis_counterexample:
  "length (replicate 51 (0x61 :: 16 word)) > 50 \<and>
   deriveTitle (replicate 51 0x61) \<noteq> take 50 (replicate 51 0x61) @ [0x2026]"
  by (simp add: deriveTitle_def substring0_def js_def)

text \<open>
  Claim C6: the output of the context builder. With an empty history it starts with the
  fixed preamble, contains the generic instruction and ends with the current message.
  With a non-empty history it is the preamble, the history header, the rendering of the
  last (at most 10) history entries in their order, each as the role label (\<open>User\<close> for
  role \<open>user\<close>, \<open>Assistant\<close> for every other role), a colon and a space, the content
  and a newline, then the context instruction and the current message.
\<close>

theorem buildContextPrompt_shape:
  "(h = [] \<longrightarrow>
      prefix (js ''You are a helpful AI assistant. '') (buildContextPrompt m h) \<and>
      sublist (js ''Please provide a clear, concise, and helpful response to: '')
              (buildContextPrompt m h) \<and>
      suffix m (buildContextPrompt m h)) \<and>
   (h \<noteq> [] \<longrightarrow>
      (\<exists>older recent.
         h = older @ recent \<and> length recent = min 10 (length h) \<and>
         buildContextPrompt m h =
           js ''You are a helpful AI assistant. ''
             @ js ''Here's our conversation history for context:\<newline>\<newline>''
             @ concat (map (\<lambda>msg. (if role msg = js ''user'' then js ''User'' else js ''Assistant'')
                                     @ js '': '' @ content msg @ js ''\<newline>'')
                           recent)
             @ js ''\<newline>Based on this conversation context, please provide a helpful and relevant response to: ''
             @ m))"
proof (intro conjI impI)
  assume "h = []"
  then have e: "buildContextPrompt m h =
     js ''You are a helpful AI assistant. ''
       @ js ''Please provide a clear, concise, and helpful response to: '' @ m"
    by (simp add: buildContextPrompt_empty)
  show "prefix (js ''You are a helpful AI assistant. '') (buildContextPrompt m h)"
    unfolding e by (rule prefixI) simp
  show "sublist (js ''Please provide a clear, concise, and helpful response to: '')
          (buildContextPrompt m h)"
    unfolding e sublist_def by blast
  show "suffix m (buildContextPrompt m h)"
    unfolding e suffix_def by (metis append.assoc)
next
  assume ne: "h \<noteq> []"
  have split: "h = take (length h - 10) h @ slice_last 10 h"
    by (simp add: slice_last_def)
  have len: "length (slice_last 10 h) = min 10 (length h)"
    by (simp add: slice_last_def)
  show "\<exists>older recent.
         h = older @ recent \<and> length recent = min 10 (length h) \<and>
         buildContextPrompt m h =
           js ''You are a helpful AI assistant. ''
             @ js ''Here's our conversation history for context:\<newline>\<newline>''
             @ concat (map (\<lambda>msg. (if role msg = js ''user'' then js ''User'' else js ''Assistant'')
                                     @ js '': '' @ content msg @ js ''\<newline>'')
                           recent)
             @ js ''\<newline>Based on this conversation context, please provide a helpful and relevant response to: ''
             @ m"
    using split len buildContextPrompt_nonempty [OF ne, of m]
    by blast
qed

theorem buildContextPrompt_shape_witness:
  "prefix (js ''You are a helpful AI assistant. '')
     (buildContextPrompt (js ''Hi'') ([] :: history_row list)) \<and>
   suffix (js ''Hi'') (buildContextPrompt (js ''Hi'') ([] :: history_row list)) \<and>
   (\<exists>older recent.
      [\<lparr>role = js ''bot'', content = js ''Yo'', created_at = 1\<rparr>] = older @ recent \<and>
      buildContextPrompt (js ''Hi'') [\<lparr>role = js ''bot'', content = js ''Yo'', created_at = 1\<rparr>] =
        js ''You are a helpful AI assistant. ''
          @ js ''Here's our conversation history for context:\<newline>\<newline>''
          @ concat (map (\<lambda>msg. (if role msg = js ''user'' then js ''User'' else js ''Assistant'')
                                  @ js '': '' @ content msg @ js ''\<newline>'')
                        recent)
          @ js ''\<newline>Based on this conversation context, please provide a helpful and relevant response to: ''
          @ js ''Hi'')"
  using buildContextPrompt_shape [of "[] :: history_row list" "js ''Hi''"]
        buildContextPrompt_shape
          [of "[\<lparr>role = js ''bot'', content = js ''Yo'', created_at = 1\<rparr>]" "js ''Hi''"]
  by blast

section \<open>Properties of the helpers\<close>

lemma saveMessage_sessions:
  "chat_sessions (snd (saveMessage st c r m f)) = chat_sessions st"
  by (cases f) (simp_all add: saveMessage_def insert_message_def respond_def Let_def)

lemma updateChatSession_ids:
  "map id_sess (chat_sessions (updateChatSession st c f)) = map id_sess (chat_sessions st)"
  by (cases f) (simp_all add: updateChatSession_def update_session_def respond_def comp_def)

lemma deriveTitle_nonempty: "m \<noteq> [] \<Longrightarrow> deriveTitle m \<noteq> []"
  by (auto simp: deriveTitle_def substring0_def js_def)

lemma getOrCreate_with_title:
  "t \<noteq> [] \<Longrightarrow>
   getOrCreateChatSession st uid (Some t) f_recent NoFault =
     (Some \<lparr>id_sess = next_id st, user_id = uid, title = t,
            created_at_sess = clock st, updated_at = clock st\<rparr>,
      st\<lparr>chat_sessions := chat_sessions st @
              [\<lparr>id_sess = next_id st, user_id = uid, title = t,
                created_at_sess = clock st, updated_at = clock st\<rparr>],
         next_id := next_id st + 1, clock := clock st + 1\<rparr>)"
  by (simp add: getOrCreateChatSession_def insert_session_def respond_def Let_def)

lemma resolve_session_no_chatId:
  assumes "message req \<noteq> []" "chatId req = None" "create_fault env = NoFault"
  shows "resolve_session env st req =
     (Inr (Some \<lparr>id_sess = next_id st, user_id = userId req, title = deriveTitle (message req),
            created_at_sess = clock st, updated_at = clock st\<rparr>),
      st\<lparr>chat_sessions := chat_sessions st @
              [\<lparr>id_sess = next_id st, user_id = userId req, title = deriveTitle (message req),
                created_at_sess = clock st, updated_at = clock st\<rparr>],
         next_id := next_id st + 1, clock := clock st + 1\<rparr>)"
  using assms by (simp add: resolve_session_def getOrCreate_with_title deriveTitle_nonempty)

lemma post_chat_resolved:
  assumes "userId req \<noteq> []" "message req \<noteq> []"
      and "resolve_session env st req = (Inr (Some cs), st1)"
  shows "post_chat env st req =
     (let st2 = snd (saveMessage st1 (id_sess cs) (js ''user'') (message req) (save_user_fault env));
          chatHistory = getChatHistory st2 (id_sess cs) 10 (history_fault env);
          contextPrompt = buildContextPrompt (message req) chatHistory
      in case aiResponse_of (gemini env contextPrompt) of
           Inl e \<Rightarrow> ((500, ErrorBody (js ''Internal server error'') (Some e)), st2, [contextPrompt])
         | Inr aiResponse \<Rightarrow>
             ((200, ChatBody aiResponse (id_sess cs) (chatHistory \<noteq> [])),
              updateChatSession
                (snd (saveMessage st2 (id_sess cs) (js ''bot'') aiResponse (save_bot_fault env)))
                (id_sess cs) (touch_fault env),
              [contextPrompt]))"
  using assms by (simp add: post_chat_def Let_def split_beta split: sum.splits)

lemma sorted_last_max:
  "sorted (map f ys) \<Longrightarrow> y \<in> set ys \<Longrightarrow> f y \<le> f (last ys)"
  by (induction ys) (auto split: if_splits)

lemma getOrCreate_without_title:
  assumes "filter (\<lambda>s. user_id s = uid) (chat_sessions st) \<noteq> []"
  shows "\<exists>s. getOrCreateChatSession st uid None NoFault f_create = (Some s, st) \<and>
             s \<in> set (chat_sessions st) \<and> user_id s = uid \<and>
             (\<forall>s' \<in> set (chat_sessions st). user_id s' = uid \<longrightarrow> updated_at s' \<le> updated_at s)"
proof -
  let ?xs = "filter (\<lambda>s. user_id s = uid) (chat_sessions st)"
  let ?ys = "sort_key updated_at ?xs"
  have ne: "?ys \<noteq> []" using assms by (metis length_sort list.size(3) length_0_conv)
  then obtain r rs where rv: "rev ?ys = r # rs" by (cases "rev ?ys") auto
  have r: "r = last ?ys" using rv ne by (metis last_rev list.sel(1) rev_rev_ident)
  have mem: "r \<in> set ?xs" using r ne by (metis last_in_set set_sort)
  have mx: "\<forall>s' \<in> set ?xs. updated_at s' \<le> updated_at r"
    using sorted_last_max [of updated_at ?ys] r by (simp add: sorted_sort_key)
  have "getOrCreateChatSession st uid None NoFault f_create = (Some r, st)"
    using rv by (simp add: getOrCreateChatSession_def select_recent_session_def respond_def Let_def)
  then show ?thesis using mem mx by auto
qed


lemma aiResponse_of_safety:
  "candidates d = Some (c # rest) \<Longrightarrow> finishReason c = Some (js ''SAFETY'') \<Longrightarrow>
   aiResponse_of (HttpResponse True code stext (JsonObj d)) =
     Inl (js ''Content was filtered for safety reasons. Please try rephrasing your message.'')"
  by (simp add: aiResponse_of_def)

lemma getChatHistory_fault: "f \<noteq> NoFault \<Longrightarrow> getChatHistory st c limit f = []"
  by (cases f) (simp_all add: getChatHistory_def select_history_def respond_def)

lemma resolve_session_create_fails:
  assumes "message req \<noteq> []" "create_fault env \<noteq> NoFault"
      and "chatId req = None \<or>
           (\<exists>c e. chatId req = Some c \<and>
                  select_session_single st c (userId req) (lookup_fault env) = Error e)"
  shows "resolve_session env st req = (Inr None, st)"
proof -
  have g: "getOrCreateChatSession st (userId req) (Some (deriveTitle (message req)))
             (recent_fault env) (create_fault env) = (None, st)"
    using assms(1,2)
    by (cases "create_fault env")
       (simp_all add: getOrCreateChatSession_def insert_session_def respond_def Let_def
                      deriveTitle_nonempty)
  from assms(3) show ?thesis
    by (auto simp: resolve_session_def g)
qed

lemma updateChatSession_messages:
  "chat_messages (updateChatSession st c f) = chat_messages st"
  by (cases f) (simp_all add: updateChatSession_def update_session_def respond_def)

lemma updateChatSession_owner_title:
  "map user_id (chat_sessions (updateChatSession st c f)) = map user_id (chat_sessions st) \<and>
   map title (chat_sessions (updateChatSession st c f)) = map title (chat_sessions st)"
  by (cases f) (simp_all add: updateChatSession_def update_session_def respond_def comp_def)

lemma saveMessage_messages:
  "chat_messages (snd (saveMessage st c r m f)) =
     chat_messages st @
       (if f = NoFault \<and> list_ex (\<lambda>s. id_sess s = c) (chat_sessions st)
        then [\<lparr>role = r, content = m, created_at = clock st, id_msg = next_id st, chat_id = c\<rparr>]
        else [])"
  by (cases f) (simp_all add: saveMessage_def insert_message_def Let_def)

lemma getOrCreate_titled:
  "t \<noteq> [] \<Longrightarrow>
   getOrCreateChatSession st uid (Some t) f1 f2 =
     (if f2 = NoFault
      then (Some \<lparr>id_sess = next_id st, user_id = uid, title = t,
                   created_at_sess = clock st, updated_at = clock st\<rparr>,
            st\<lparr>chat_sessions := chat_sessions st @
                    [\<lparr>id_sess = next_id st, user_id = uid, title = t,
                      created_at_sess = clock st, updated_at = clock st\<rparr>],
               next_id := next_id st + 1, clock := clock st + 1\<rparr>)
      else (None, st))"
  by (cases f2) (simp_all add: getOrCreateChatSession_def insert_session_def respond_def Let_def)

lemma delete_chat_session_calls:
  "snd (snd (delete_chat_session st c f1 f2)) =
     (if \<forall>e. f1 \<noteq> Thrown e then [DeleteMessages c, DeleteSession c] else [DeleteMessages c])"
  by (cases f1; cases f2)
     (simp_all add: delete_chat_session_def delete_messages_def delete_session_def respond_def)

lemma delete_chat_session_thrown:
  "fst (delete_chat_session st c (Thrown e) f2) =
     (500, ErrorBody (js ''Failed to delete chat session'') None)"
  by (simp add: delete_chat_session_def delete_messages_def respond_def)

lemma delete_chat_session_status:
  "(\<forall>e. f1 \<noteq> Thrown e) \<Longrightarrow>
   fst (delete_chat_session st c f1 f2) =
     (case delete_session
             (case delete_messages st c f1 of Data s \<Rightarrow> s | Error e \<Rightarrow> st | Throws e \<Rightarrow> st)
             c f2 of
        Data s \<Rightarrow> (200, MessageBody (js ''Chat session deleted successfully''))
      | Error e \<Rightarrow> (500, ErrorBody (js ''Failed to delete chat session'') None)
      | Throws e \<Rightarrow> (500, ErrorBody (js ''Failed to delete chat session'') None))"
  by (cases f1; cases f2)
     (simp_all add: delete_chat_session_def delete_messages_def delete_session_def respond_def)

lemma delete_chat_session_ok:
  "fst (fst (delete_chat_session st c f1 f2)) = 200 \<Longrightarrow>
   chat_sessions (fst (snd (delete_chat_session st c f1 f2))) =
     filter (\<lambda>s. id_sess s \<noteq> c) (chat_sessions st) \<and>
   chat_messages (fst (snd (delete_chat_session st c f1 f2))) =
     filter (\<lambda>m. chat_id m \<noteq> c) (chat_messages st)"
  by (cases f1; cases f2)
     (auto simp: delete_chat_session_def delete_messages_def delete_session_def respond_def
                 list_ex_iff
           split: if_splits)

lemma delete_chat_session_no_fault:
  "fst (delete_chat_session st c NoFault NoFault) =
     (200, MessageBody (js ''Chat session deleted successfully''))"
  by (simp add: delete_chat_session_def delete_messages_def delete_session_def respond_def
                list_ex_iff)

lemma delete_chat_session_sessions_mem:
  "s \<in> set (chat_sessions (fst (snd (delete_chat_session st c f1 f2)))) \<longleftrightarrow>
   s \<in> set (chat_sessions st) \<and>
   (fst (fst (delete_chat_session st c f1 f2)) = 200 \<longrightarrow> id_sess s \<noteq> c)"
  by (cases f1; cases f2)
     (auto simp: delete_chat_session_def delete_messages_def delete_session_def respond_def
                 list_ex_iff)

lemma delete_chat_session_messages_sub:
  "m \<in> set (chat_messages (fst (snd (delete_chat_session st c f1 f2)))) \<Longrightarrow>
   m \<in> set (chat_messages st)"
  by (cases f1; cases f2)
     (auto simp: delete_chat_session_def delete_messages_def delete_session_def respond_def
                 list_ex_iff
           split: if_splits)

lemma delete_chat_session_messages_keep:
  "m \<in> set (chat_messages st) \<Longrightarrow> chat_id m \<noteq> c \<Longrightarrow>
   m \<in> set (chat_messages (fst (snd (delete_chat_session st c f1 f2))))"
  by (cases f1; cases f2)
     (auto simp: delete_chat_session_def delete_messages_def delete_session_def respond_def
                 list_ex_iff
           split: if_splits)


lemma distinct_map_eq:
  "distinct (map f xs) \<Longrightarrow> x \<in> set xs \<Longrightarrow> y \<in> set xs \<Longrightarrow> f x = f y \<Longrightarrow> x = y"
  by (meson distinct_map inj_onD)

lemma get_chat_messages_rows:
  "get_chat_messages st c f = (200, MessagesBody rows) \<Longrightarrow>
   rows = sort_key created_at (filter (\<lambda>m. chat_id m = c) (chat_messages st))"
  by (cases f) (simp_all add: get_chat_messages_def select_messages_def respond_def)

lemma get_chat_sessions_rows:
  "get_chat_sessions st uid f = (200, SessionsBody rows) \<Longrightarrow>
   rows = rev (sort_key updated_at (filter (\<lambda>s. user_id s = uid) (chat_sessions st)))"
  by (cases f) (simp_all add: get_chat_sessions_def select_sessions_def respond_def)

text \<open>
  The empty store has fresh identifiers and both writing handlers keep them fresh, under
  every outcome of the store calls and of the backend.
\<close>

lemma ids_fresh_st0: "ids_fresh st0"
  by (simp add: ids_fresh_def st0_def)

lemma ids_fresh_saveMessage:
  "ids_fresh st \<Longrightarrow> ids_fresh (snd (saveMessage st c r m f))"
  by (cases f)
     (auto simp: ids_fresh_def saveMessage_def insert_message_def respond_def Let_def
                 list_all_iff less_Suc_eq)

lemma updateChatSession_next_id: "next_id (updateChatSession st c f) = next_id st"
  by (cases f) (simp_all add: updateChatSession_def update_session_def respond_def)

lemma ids_fresh_updateChatSession:
  "ids_fresh st \<Longrightarrow> ids_fresh (updateChatSession st c f)"
  by (simp add: ids_fresh_def updateChatSession_ids updateChatSession_next_id)

lemma ids_fresh_getOrCreate:
  "ids_fresh st \<Longrightarrow> ids_fresh (snd (getOrCreateChatSession st uid t f1 f2))"
  by (cases f1; cases f2)
     (auto simp: ids_fresh_def getOrCreateChatSession_def insert_session_def
                 select_recent_session_def respond_def Let_def list_all_iff less_Suc_eq
           split: list.splits)

lemma ids_fresh_resolve_session:
  "ids_fresh st \<Longrightarrow> ids_fresh (snd (resolve_session env st req))"
  using ids_fresh_getOrCreate
  by (auto simp: resolve_session_def split_beta split: option.splits outcome.splits)

lemma ids_fresh_post_chat:
  assumes "ids_fresh st"
  shows "ids_fresh (fst (snd (post_chat env st req)))"
proof -
  obtain r st1 where rs: "resolve_session env st req = (r, st1)"
    by (cases "resolve_session env st req")
  have f1: "ids_fresh st1"
    using ids_fresh_resolve_session [OF assms, of env req] rs by simp
  show ?thesis
    using assms f1 rs
    by (auto simp: post_chat_def Let_def split_beta ids_fresh_saveMessage
                   ids_fresh_updateChatSession
             split: sum.splits option.splits)
qed

lemma ids_fresh_delete_chat_session:
  assumes "ids_fresh st"
  shows "ids_fresh (fst (snd (delete_chat_session st c f1 f2)))"
  using assms
  by (cases f1; cases f2)
     (auto simp: ids_fresh_def delete_chat_session_def delete_messages_def delete_session_def
                 respond_def list_all_iff distinct_map_filter)


section \<open>The chat turn\<close>

text \<open>
  Claim C1, at the first turn of a new user on the empty store with no fault: the user
  message is saved before the history is fetched, so the fetched history holds the
  message of this very turn, it is rendered into the prompt, and \<open>contextUsed\<close> is
  true although the session had no earlier message.
\<close>

theorem first_turn_counts_own_message:
  "post_chat env0 st0 \<lparr>userId = js ''u1'', message = js ''Hello'', chatId = None\<rparr> =
     ((200, ChatBody (js ''Hi'') 0 True), st_u1,
      [buildContextPrompt (js ''Hello'')
         [\<lparr>role = js ''user'', content = js ''Hello'', created_at = 1\<rparr>]])"
  by code_simp

text \<open>
  Claim C2, on a session of eleven messages with timestamps 1 to 11: the fetch orders
  ascending and cuts after ten rows, so it returns the ten oldest messages (1 to 10),
  while the ten most recent are 2 to 11; the newest message is not in the context.
\<close>

theorem history_fetch_oldest_ten:
  "map created_at (getChatHistory st11 0 10 NoFault) = [1, 2, 3, 4, 5, 6, 7, 8, 9, 10] \<and>
   map created_at (slice_last 10 (sort_key created_at
       (filter (\<lambda>m. chat_id m = 0) (chat_messages st11)))) = [2, 3, 4, 5, 6, 7, 8, 9, 10, 11]"
  by code_simp

text \<open>
  Claim C3 as stated fails: user \<open>u1\<close> has a session (identifier 0), posts without a
  \<open>chatId\<close>, and the turn runs in a new session (identifier 3) beside it.
\<close>

theorem second_turn_new_session_counterexample:
  "filter (\<lambda>s. user_id s = js ''u1'') (chat_sessions st_u1) \<noteq> [] \<and>
   fst (post_chat env0 st_u1 \<lparr>userId = js ''u1'', message = js ''Again'', chatId = None\<rparr>) =
     (200, ChatBody (js ''Hi'') 3 True) \<and>
   map id_sess (chat_sessions (fst (snd
     (post_chat env0 st_u1 \<lparr>userId = js ''u1'', message = js ''Again'', chatId = None\<rparr>)))) = [0, 3]"
  by code_simp

text \<open>
  Claim C3, as the code has it: a turn without \<open>chatId\<close> does not reuse a session. The
  handler passes the title derived from the message, and with a title
  \<open>getOrCreateChatSession\<close> does not look for a session: it inserts one and fails when
  the insert fails. So when the insert succeeds, the turn is resolved to a new session
  of the requesting user with the derived title and the next generated identifier, and
  runs in it as the handler runs in any resolved session: the store ends with the
  sessions it had, in order, and this one after them; the messages the turn writes all
  belong to it, the user message first when its save succeeds; the history is read from
  it; a successful response carries its identifier. The most recently updated session
  of a user is reused by \<open>getOrCreateChatSession\<close> when it is called without a title.
\<close>

theorem post_chat_without_chatId:
  assumes "userId req \<noteq> []" "message req \<noteq> []" "chatId req = None"
      and "create_fault env = NoFault"
  shows "(let new = \<lparr>id_sess = next_id st, user_id = userId req,
                     title = deriveTitle (message req),
                     created_at_sess = clock st, updated_at = clock st\<rparr>;
              st1 = st\<lparr>chat_sessions := chat_sessions st @ [new],
                       next_id := next_id st + 1, clock := clock st + 1\<rparr>;
              st2 = snd (saveMessage st1 (next_id st) (js ''user'') (message req)
                           (save_user_fault env));
              chatHistory = getChatHistory st2 (next_id st) 10 (history_fault env);
              contextPrompt = buildContextPrompt (message req) chatHistory
          in resolve_session env st req = (Inr (Some new), st1) \<and>
             post_chat env st req =
               (case aiResponse_of (gemini env contextPrompt) of
                  Inl e \<Rightarrow>
                    ((500, ErrorBody (js ''Internal server error'') (Some e)), st2, [contextPrompt])
                | Inr aiResponse \<Rightarrow>
                    ((200, ChatBody aiResponse (next_id st) (chatHistory \<noteq> [])),
                     updateChatSession
                       (snd (saveMessage st2 (next_id st) (js ''bot'') aiResponse
                               (save_bot_fault env)))
                       (next_id st) (touch_fault env),
                     [contextPrompt]))) \<and>
         map id_sess (chat_sessions (fst (snd (post_chat env st req)))) =
           map id_sess (chat_sessions st) @ [next_id st] \<and>
         map user_id (chat_sessions (fst (snd (post_chat env st req)))) =
           map user_id (chat_sessions st) @ [userId req] \<and>
         map title (chat_sessions (fst (snd (post_chat env st req)))) =
           map title (chat_sessions st) @ [deriveTitle (message req)] \<and>
         (\<exists>ms. chat_messages (fst (snd (post_chat env st req))) = chat_messages st @ ms \<and>
               list_all (\<lambda>m. chat_id m = next_id st) ms \<and>
               (save_user_fault env = NoFault \<longrightarrow>
                  (\<exists>rest. ms = \<lparr>role = js ''user'', content = message req,
                                  created_at = clock st + 1, id_msg = next_id st + 1,
                                  chat_id = next_id st\<rparr> # rest))) \<and>
         (\<forall>r c b. fst (post_chat env st req) = (200, ChatBody r c b) \<longrightarrow> c = next_id st) \<and>
         (\<forall>uid t f1 f2. t \<noteq> [] \<longrightarrow>
            getOrCreateChatSession st uid (Some t) f1 f2 =
              (if f2 = NoFault
               then (Some \<lparr>id_sess = next_id st, user_id = uid, title = t,
                            created_at_sess = clock st, updated_at = clock st\<rparr>,
                     st\<lparr>chat_sessions := chat_sessions st @
                             [\<lparr>id_sess = next_id st, user_id = uid, title = t,
                               created_at_sess = clock st, updated_at = clock st\<rparr>],
                        next_id := next_id st + 1, clock := clock st + 1\<rparr>)
               else (None, st))) \<and>
         (\<forall>uid f. filter (\<lambda>s. user_id s = uid) (chat_sessions st) \<noteq> [] \<longrightarrow>
            (\<exists>s. getOrCreateChatSession st uid None NoFault f = (Some s, st) \<and>
                 s \<in> set (chat_sessions st) \<and> user_id s = uid \<and>
                 (\<forall>s' \<in> set (chat_sessions st).
                     user_id s' = uid \<longrightarrow> updated_at s' \<le> updated_at s)))"
proof -
  let ?new = "\<lparr>id_sess = next_id st, user_id = userId req, title = deriveTitle (message req),
            created_at_sess = clock st, updated_at = clock st\<rparr>"
  let ?st1 = "st\<lparr>chat_sessions := chat_sessions st @ [?new],
         next_id := next_id st + 1, clock := clock st + 1\<rparr>"
  let ?st2 = "snd (saveMessage ?st1 (next_id st) (js ''user'') (message req) (save_user_fault env))"
  let ?um = "\<lparr>role = js ''user'', content = message req, created_at = clock st + 1,
              id_msg = next_id st + 1, chat_id = next_id st\<rparr>"
  have rs: "resolve_session env st req = (Inr (Some ?new), ?st1)"
    using assms by (simp add: resolve_session_no_chatId)
  note pc = post_chat_resolved [OF assms(1,2) rs]
  have c1: "(let new = \<lparr>id_sess = next_id st, user_id = userId req,
                     title = deriveTitle (message req),
                     created_at_sess = clock st, updated_at = clock st\<rparr>;
              st1 = st\<lparr>chat_sessions := chat_sessions st @ [new],
                       next_id := next_id st + 1, clock := clock st + 1\<rparr>;
              st2 = snd (saveMessage st1 (next_id st) (js ''user'') (message req)
                           (save_user_fault env));
              chatHistory = getChatHistory st2 (next_id st) 10 (history_fault env);
              contextPrompt = buildContextPrompt (message req) chatHistory
          in resolve_session env st req = (Inr (Some new), st1) \<and>
             post_chat env st req =
               (case aiResponse_of (gemini env contextPrompt) of
                  Inl e \<Rightarrow>
                    ((500, ErrorBody (js ''Internal server error'') (Some e)), st2, [contextPrompt])
                | Inr aiResponse \<Rightarrow>
                    ((200, ChatBody aiResponse (next_id st) (chatHistory \<noteq> [])),
                     updateChatSession
                       (snd (saveMessage st2 (next_id st) (js ''bot'') aiResponse
                               (save_bot_fault env)))
                       (next_id st) (touch_fault env),
                     [contextPrompt])))"
    unfolding pc rs by (simp add: Let_def split: sum.splits)
  have c2: "map id_sess (chat_sessions (fst (snd (post_chat env st req)))) =
           map id_sess (chat_sessions st) @ [next_id st]"
    unfolding pc
    by (simp add: Let_def updateChatSession_ids saveMessage_sessions split: sum.splits)
  have c3: "map user_id (chat_sessions (fst (snd (post_chat env st req)))) =
           map user_id (chat_sessions st) @ [userId req]"
    unfolding pc
    by (simp add: Let_def updateChatSession_owner_title saveMessage_sessions split: sum.splits)
  have c4: "map title (chat_sessions (fst (snd (post_chat env st req)))) =
           map title (chat_sessions st) @ [deriveTitle (message req)]"
    unfolding pc
    by (simp add: Let_def updateChatSession_owner_title saveMessage_sessions split: sum.splits)
  have m2: "chat_messages ?st2 =
      chat_messages st @ (if save_user_fault env = NoFault then [?um] else [])"
    by (simp add: saveMessage_messages)
  have c5: "\<exists>ms. chat_messages (fst (snd (post_chat env st req))) = chat_messages st @ ms \<and>
               list_all (\<lambda>m. chat_id m = next_id st) ms \<and>
               (save_user_fault env = NoFault \<longrightarrow> (\<exists>rest. ms = ?um # rest))"
  proof (cases "aiResponse_of (gemini env (buildContextPrompt (message req)
                  (getChatHistory ?st2 (next_id st) 10 (history_fault env))))")
    case (Inl e)
    then have "chat_messages (fst (snd (post_chat env st req))) = chat_messages ?st2"
      unfolding pc by (simp add: Let_def)
    with m2 show ?thesis by auto
  next
    case (Inr ai)
    then have "chat_messages (fst (snd (post_chat env st req))) =
        chat_messages (snd (saveMessage ?st2 (next_id st) (js ''bot'') ai (save_bot_fault env)))"
      unfolding pc by (simp add: Let_def updateChatSession_messages)
    then have "\<exists>tl. chat_messages (fst (snd (post_chat env st req))) = chat_messages ?st2 @ tl \<and>
        list_all (\<lambda>m. chat_id m = next_id st) tl"
      by (simp add: saveMessage_messages)
    then obtain tl where tl: "chat_messages (fst (snd (post_chat env st req))) = chat_messages ?st2 @ tl"
        "list_all (\<lambda>m. chat_id m = next_id st) tl"
      by blast
    show ?thesis
    proof (cases "save_user_fault env = NoFault")
      case True
      with m2 tl have "chat_messages (fst (snd (post_chat env st req))) = chat_messages st @ (?um # tl)"
        by simp
      moreover have "list_all (\<lambda>m. chat_id m = next_id st) (?um # tl)"
        using tl(2) by simp
      ultimately show ?thesis using True by blast
    next
      case False
      with m2 tl have "chat_messages (fst (snd (post_chat env st req))) = chat_messages st @ tl"
        by simp
      with tl(2) False show ?thesis by blast
    qed
  qed
  have c6: "\<forall>r c b. fst (post_chat env st req) = (200, ChatBody r c b) \<longrightarrow> c = next_id st"
    unfolding pc by (simp add: Let_def split: sum.splits)
  have c7: "\<forall>uid t f1 f2. t \<noteq> [] \<longrightarrow>
            getOrCreateChatSession st uid (Some t) f1 f2 =
              (if f2 = NoFault
               then (Some \<lparr>id_sess = next_id st, user_id = uid, title = t,
                            created_at_sess = clock st, updated_at = clock st\<rparr>,
                     st\<lparr>chat_sessions := chat_sessions st @
                             [\<lparr>id_sess = next_id st, user_id = uid, title = t,
                               created_at_sess = clock st, updated_at = clock st\<rparr>],
                        next_id := next_id st + 1, clock := clock st + 1\<rparr>)
               else (None, st))"
    using getOrCreate_titled by blast
  have c8: "\<forall>uid f. filter (\<lambda>s. user_id s = uid) (chat_sessions st) \<noteq> [] \<longrightarrow>
            (\<exists>s. getOrCreateChatSession st uid None NoFault f = (Some s, st) \<and>
                 s \<in> set (chat_sessions st) \<and> user_id s = uid \<and>
                 (\<forall>s' \<in> set (chat_sessions st).
                     user_id s' = uid \<longrightarrow> updated_at s' \<le> updated_at s))"
    using getOrCreate_without_title by blast
  show ?thesis
    by (rule conjI [OF c1 conjI [OF c2 conjI [OF c3 conjI [OF c4 conjI [OF c5
          conjI [OF c6 conjI [OF c7 c8]]]]]]])
qed


theorem post_chat_without_chatId_witness:
  "map id_sess (chat_sessions (fst (snd
     (post_chat env0 st_u1 \<lparr>userId = js ''u1'', message = js ''Again'', chatId = None\<rparr>)))) = [0, 3] \<and>
   map user_id (chat_sessions (fst (snd
     (post_chat env0 st_u1 \<lparr>userId = js ''u1'', message = js ''Again'', chatId = None\<rparr>)))) =
     [js ''u1'', js ''u1''] \<and>
   map title (chat_sessions (fst (snd
     (post_chat env0 st_u1 \<lparr>userId = js ''u1'', message = js ''Again'', chatId = None\<rparr>)))) =
     [js ''Hello'', js ''Again''] \<and>
   (\<exists>s. getOrCreateChatSession st_u1 (js ''u1'') None NoFault NoFault = (Some s, st_u1) \<and>
        id_sess s = 0)"
proof -
  let ?req = "\<lparr>userId = js ''u1'', message = js ''Again'', chatId = None\<rparr>"
  have h: "userId ?req \<noteq> []" "message ?req \<noteq> []" "chatId ?req = None"
    "create_fault env0 = NoFault"
    by (simp_all add: js_def env0_def)
  note t = post_chat_without_chatId [OF h, of st_u1]
  have ne: "filter (\<lambda>s. user_id s = js ''u1'') (chat_sessions st_u1) \<noteq> []"
    by (simp add: st_u1_def)
  from t have t8: "\<forall>uid f. filter (\<lambda>s. user_id s = uid) (chat_sessions st_u1) \<noteq> [] \<longrightarrow>
            (\<exists>s. getOrCreateChatSession st_u1 uid None NoFault f = (Some s, st_u1) \<and>
                 s \<in> set (chat_sessions st_u1) \<and> user_id s = uid \<and>
                 (\<forall>s' \<in> set (chat_sessions st_u1).
                     user_id s' = uid \<longrightarrow> updated_at s' \<le> updated_at s))"
    by (elim conjE)
  from t8 ne obtain s where
    s: "getOrCreateChatSession st_u1 (js ''u1'') None NoFault NoFault = (Some s, st_u1)"
       "s \<in> set (chat_sessions st_u1)"
    by blast
  from s(2) have s0: "id_sess s = 0" by (simp add: st_u1_def)
  from t have "map id_sess (chat_sessions (fst (snd (post_chat env0 st_u1 ?req)))) =
      map id_sess (chat_sessions st_u1) @ [next_id st_u1]"
    by (elim conjE)
  then have a: "map id_sess (chat_sessions (fst (snd (post_chat env0 st_u1 ?req)))) = [0, 3]"
    by (simp add: st_u1_def)
  from t have "map user_id (chat_sessions (fst (snd (post_chat env0 st_u1 ?req)))) =
      map user_id (chat_sessions st_u1) @ [userId ?req]"
    by (elim conjE)
  then have b: "map user_id (chat_sessions (fst (snd (post_chat env0 st_u1 ?req)))) =
      [js ''u1'', js ''u1'']"
    by (simp add: st_u1_def)
  from t have "map title (chat_sessions (fst (snd (post_chat env0 st_u1 ?req)))) =
      map title (chat_sessions st_u1) @ [deriveTitle (message ?req)]"
    by (elim conjE)
  then have c: "map title (chat_sessions (fst (snd (post_chat env0 st_u1 ?req)))) =
      [js ''Hello'', js ''Again'']"
    by (simp add: st_u1_def deriveTitle_def js_def)
  from a b c s(1) s0 show ?thesis by blast
qed


text \<open>
  Claim C4 as stated fails: when the first candidate carries the finish reason
  \<open>SAFETY\<close>, the response is the handler's general error response, status 500 with
  the error \<open>Internal server error\<close>; the content-filtered message travels in its
  \<open>details\<close> field.
\<close>

theorem safety_filtered_turn_counterexample:
  "fst (post_chat env_safety st0 hello) =
     (500, ErrorBody (js ''Internal server error'')
        (Some (js ''Content was filtered for safety reasons. Please try rephrasing your message.'')))"
  by code_simp

text \<open>
  Claim C4, as the code has it: in a turn with a resolved session, a backend answer
  whose first candidate has the finish reason \<open>SAFETY\<close> ends the turn with status 500,
  error \<open>Internal server error\<close> and the content-filtered message as details. No reply
  is returned and no assistant message is written: the store is the one left by saving
  the user message. The backend was called once.
\<close>

theorem safety_filtered_turn:
  assumes "userId req \<noteq> []" "message req \<noteq> []"
      and "resolve_session env st req = (Inr (Some cs), st1)"
      and "\<forall>p. \<exists>code stext d c rest.
             gemini env p = HttpResponse True code stext (JsonObj d) \<and>
             candidates d = Some (c # rest) \<and> finishReason c = Some (js ''SAFETY'')"
  shows "fst (post_chat env st req) =
           (500, ErrorBody (js ''Internal server error'')
              (Some (js ''Content was filtered for safety reasons. Please try rephrasing your message.''))) \<and>
         fst (snd (post_chat env st req)) =
           snd (saveMessage st1 (id_sess cs) (js ''user'') (message req) (save_user_fault env)) \<and>
         length (snd (snd (post_chat env st req))) = 1"
proof -
  have a: "aiResponse_of (gemini env p) =
      Inl (js ''Content was filtered for safety reasons. Please try rephrasing your message.'')" for p
    using assms(4) aiResponse_of_safety by metis
  show ?thesis
    unfolding post_chat_resolved [OF assms(1-3)] by (simp add: Let_def a)
qed

theorem safety_filtered_turn_witness:
  "fst (post_chat env_safety st0 hello) =
     (500, ErrorBody (js ''Internal server error'')
        (Some (js ''Content was filtered for safety reasons. Please try rephrasing your message.''))) \<and>
   chat_messages (fst (snd (post_chat env_safety st0 hello))) =
     [\<lparr>role = js ''user'', content = js ''Hello'', created_at = 1, id_msg = 1, chat_id = 0\<rparr>]"
proof -
  let ?cs = "\<lparr>id_sess = 0, user_id = js ''u1'', title = js ''Hello'',
              created_at_sess = 0, updated_at = 0\<rparr>"
  let ?st1 = "\<lparr>chat_sessions = [?cs], chat_messages = [], next_id = 1, clock = 1, on_delete = Restrict\<rparr>"
  have h1: "userId hello \<noteq> []" "message hello \<noteq> []"
    by (simp_all add: hello_def js_def)
  have h2: "resolve_session env_safety st0 hello = (Inr (Some ?cs), ?st1)"
    by code_simp
  have h3: "\<forall>p. \<exists>code stext d c rest.
             gemini env_safety p = HttpResponse True code stext (JsonObj d) \<and>
             candidates d = Some (c # rest) \<and> finishReason c = Some (js ''SAFETY'')"
    by (simp add: env_safety_def safetyReply_def)
  have s: "snd (saveMessage ?st1 (id_sess ?cs) (js ''user'') (message hello)
                  (save_user_fault env_safety)) =
           \<lparr>chat_sessions = [?cs],
            chat_messages = [\<lparr>role = js ''user'', content = js ''Hello'', created_at = 1,
                              id_msg = 1, chat_id = 0\<rparr>],
            next_id = 2, clock = 2, on_delete = Restrict\<rparr>"
    by code_simp
  from safety_filtered_turn [OF h1 h2 h3] s show ?thesis
    by simp
qed

text \<open>
  Claim C7: when no session is resolved, the turn answers with status 500 and no prompt
  is sent to the generation backend. In particular, when the request has no \<open>chatId\<close>
  (or its lookup answers with an error) and the session insert fails, the response is
  the storage failure \<open>Failed to create/get chat session\<close>, the store is unchanged
  and the backend is not called.
\<close>

theorem no_session_no_generation:
  assumes "userId req \<noteq> []" "message req \<noteq> []"
  shows "((\<forall>cs. fst (resolve_session env st req) \<noteq> Inr (Some cs)) \<longrightarrow>
            fst (fst (post_chat env st req)) = 500 \<and> snd (snd (post_chat env st req)) = []) \<and>
         (create_fault env \<noteq> NoFault \<and>
          (chatId req = None \<or>
           (\<exists>c e. chatId req = Some c \<and>
                  select_session_single st c (userId req) (lookup_fault env) = Error e)) \<longrightarrow>
            post_chat env st req =
              ((500, ErrorBody (js ''Failed to create/get chat session'') None), st, []))"
proof (intro conjI impI)
  assume n: "\<forall>cs. fst (resolve_session env st req) \<noteq> Inr (Some cs)"
  obtain r st1 where rs: "resolve_session env st req = (r, st1)"
    by (cases "resolve_session env st req")
  with n have "\<forall>cs. r \<noteq> Inr (Some cs)" by simp
  then show "fst (fst (post_chat env st req)) = 500"
    and "snd (snd (post_chat env st req)) = []"
    using assms rs by (auto simp: post_chat_def split: sum.splits option.splits)
next
  assume c: "create_fault env \<noteq> NoFault \<and>
          (chatId req = None \<or>
           (\<exists>c e. chatId req = Some c \<and>
                  select_session_single st c (userId req) (lookup_fault env) = Error e))"
  then have "resolve_session env st req = (Inr None, st)"
    using assms(2) resolve_session_create_fails by blast
  then show "post_chat env st req =
              ((500, ErrorBody (js ''Failed to create/get chat session'') None), st, [])"
    using assms by (simp add: post_chat_def)
qed

theorem no_session_no_generation_witness:
  "post_chat env_no_create st0 hello =
     ((500, ErrorBody (js ''Failed to create/get chat session'') None), st0, []) \<and>
   fst (fst (post_chat env_no_create st0 hello)) = 500 \<and>
   snd (snd (post_chat env_no_create st0 hello)) = []"
proof -
  have h: "userId hello \<noteq> []" "message hello \<noteq> []"
    by (simp_all add: hello_def js_def)
  have c: "create_fault env_no_create \<noteq> NoFault" "chatId hello = None"
    by (simp_all add: env_no_create_def env0_def hello_def)
  have "resolve_session env_no_create st0 hello = (Inr None, st0)"
    by code_simp
  then have r: "\<forall>cs. fst (resolve_session env_no_create st0 hello) \<noteq> Inr (Some cs)"
    by simp
  from no_session_no_generation [OF h, of env_no_create st0] c r show ?thesis
    by blast
qed

text \<open>
  Claim C10: whatever error the history read answers with or throws,
  \<open>getChatHistory\<close> returns the empty list. The turn goes on: the one prompt sent to
  the backend is the prompt of an empty history, a generated reply is answered with
  status 200, and every successful response of such a turn has \<open>contextUsed\<close> false.
\<close>

theorem history_failure_swallowed:
  assumes "history_fault env \<noteq> NoFault"
      and "userId req \<noteq> []" "message req \<noteq> []"
      and "resolve_session env st req = (Inr (Some cs), st1)"
  shows "getChatHistory st' c limit (history_fault env) = [] \<and>
         snd (snd (post_chat env st req)) =
           [js ''You are a helpful AI assistant. ''
              @ js ''Please provide a clear, concise, and helpful response to: ''
              @ message req] \<and>
         (\<forall>ai. aiResponse_of (gemini env
                   (js ''You are a helpful AI assistant. ''
                      @ js ''Please provide a clear, concise, and helpful response to: ''
                      @ message req)) = Inr ai \<longrightarrow>
               fst (post_chat env st req) = (200, ChatBody ai (id_sess cs) False)) \<and>
         (\<forall>r c' b. fst (post_chat env st req) = (200, ChatBody r c' b) \<longrightarrow> \<not> b)"
proof -
  have g: "getChatHistory s k l (history_fault env) = []" for s k l
    using assms(1) by (rule getChatHistory_fault)
  have p: "buildContextPrompt (message req) ([] :: history_row list) =
      js ''You are a helpful AI assistant. ''
        @ js ''Please provide a clear, concise, and helpful response to: '' @ message req"
    by (rule buildContextPrompt_empty)
  show ?thesis
    unfolding post_chat_resolved [OF assms(2-4)]
    by (simp add: Let_def g p split: sum.splits)
qed

theorem history_failure_swallowed_witness:
  "getChatHistory st_u1 0 10 (Thrown (js ''fetch failed'')) = [] \<and>
   fst (post_chat env_no_history st0 hello) = (200, ChatBody (js ''Hi'') 0 False)"
proof -
  let ?cs = "\<lparr>id_sess = 0, user_id = js ''u1'', title = js ''Hello'',
              created_at_sess = 0, updated_at = 0\<rparr>"
  let ?st1 = "\<lparr>chat_sessions = [?cs], chat_messages = [], next_id = 1, clock = 1, on_delete = Restrict\<rparr>"
  have h0: "history_fault env_no_history \<noteq> NoFault"
    by (simp add: env_no_history_def)
  have hf: "history_fault env_no_history = Thrown (js ''fetch failed'')"
    by (simp add: env_no_history_def)
  have h1: "userId hello \<noteq> []" "message hello \<noteq> []"
    by (simp_all add: hello_def js_def)
  have h2: "resolve_session env_no_history st0 hello = (Inr (Some ?cs), ?st1)"
    by code_simp
  have a: "aiResponse_of (gemini env_no_history p) = Inr (js ''Hi'')" for p
    by (simp add: env_no_history_def env0_def okReply_def aiResponse_of_def js_def)
  from history_failure_swallowed [OF h0 h1 h2, of st_u1 0 10] a show ?thesis
    by (simp add: hf)
qed

section \<open>Deleting a session and reading its messages\<close>

text \<open>
  Claim C8 as stated fails: session 3 belongs to user \<open>u2\<close>, and the lookup of
  \<open>POST /chat\<close>, which filters by identifier and user, refuses it to user \<open>u1\<close>. The
  delete and the message read filter by the identifier alone and are given no user; so
  sent by \<open>u1\<close>, or by anyone, they delete the session of \<open>u2\<close> with its messages
  and return the messages of \<open>u2\<close>.
\<close>

theorem delete_and_read_any_owner_counterexample:
  "map user_id (filter (\<lambda>s. id_sess s = 3) (chat_sessions st_two)) = [js ''u2''] \<and>
   select_session_single st_two 3 (js ''u1'') NoFault =
     Error (js ''JSON object requested, multiple (or no) rows returned'') \<and>
   fst (delete_chat_session st_two 3 NoFault NoFault) =
     (200, MessageBody (js ''Chat session deleted successfully'')) \<and>
   map user_id (chat_sessions (fst (snd (delete_chat_session st_two 3 NoFault NoFault)))) =
     [js ''u1''] \<and>
   map chat_id (chat_messages (fst (snd (delete_chat_session st_two 3 NoFault NoFault)))) =
     [0, 0] \<and>
   get_chat_messages st_two 3 NoFault =
     (200, MessagesBody
        [\<lparr>role = js ''user'', content = js ''Hey'', created_at = 5, id_msg = 4, chat_id = 3\<rparr>,
         \<lparr>role = js ''bot'', content = js ''Hi'', created_at = 6, id_msg = 5, chat_id = 3\<rparr>])"
  by code_simp

text \<open>
  Claim C8, as the code has it: both handlers are scoped by the session identifier, not
  by a user; they take no user and check no ownership. Without store faults the delete
  of \<open>c\<close> succeeds and removes the session and exactly its messages, and the read
  returns exactly the messages of \<open>c\<close> in ascending order of creation, whoever owns
  the session. What they touch is keyed by \<open>c\<close>: in a store whose session identifiers
  are unique, under every outcome of the store calls, every session of a user other
  than the owner of \<open>c\<close> and every message of such a session is kept, the only session
  that can disappear is \<open>c\<close> and the only messages those of \<open>c\<close>, nothing is added,
  and whatever the read returns is a stored message of \<open>c\<close>.
\<close>

theorem delete_and_read_scoped:
  assumes "distinct (map id_sess (chat_sessions st))"
      and "owner \<in> set (chat_sessions st)" "id_sess owner = c"
  shows "(\<forall>s \<in> set (chat_sessions st). user_id s \<noteq> user_id owner \<longrightarrow>
            s \<in> set (chat_sessions (fst (snd (delete_chat_session st c f1 f2)))) \<and>
            (\<forall>m \<in> set (chat_messages st). chat_id m = id_sess s \<longrightarrow>
               m \<in> set (chat_messages (fst (snd (delete_chat_session st c f1 f2)))))) \<and>
         (\<forall>s \<in> set (chat_sessions st).
            s \<notin> set (chat_sessions (fst (snd (delete_chat_session st c f1 f2)))) \<longrightarrow> s = owner) \<and>
         (\<forall>m \<in> set (chat_messages st).
            m \<notin> set (chat_messages (fst (snd (delete_chat_session st c f1 f2)))) \<longrightarrow> chat_id m = c) \<and>
         set (chat_sessions (fst (snd (delete_chat_session st c f1 f2)))) \<subseteq> set (chat_sessions st) \<and>
         set (chat_messages (fst (snd (delete_chat_session st c f1 f2)))) \<subseteq> set (chat_messages st) \<and>
         (\<forall>rows. get_chat_messages st c f = (200, MessagesBody rows) \<longrightarrow>
            (\<forall>m \<in> set rows. m \<in> set (chat_messages st) \<and> chat_id m = c)) \<and>
         fst (delete_chat_session st c NoFault NoFault) =
           (200, MessageBody (js ''Chat session deleted successfully'')) \<and>
         owner \<notin> set (chat_sessions (fst (snd (delete_chat_session st c NoFault NoFault)))) \<and>
         chat_messages (fst (snd (delete_chat_session st c NoFault NoFault))) =
           filter (\<lambda>m. chat_id m \<noteq> c) (chat_messages st) \<and>
         get_chat_messages st c NoFault =
           (200, MessagesBody (sort_key created_at
                   (filter (\<lambda>m. chat_id m = c) (chat_messages st))))"
proof -
  let ?st' = "fst (snd (delete_chat_session st c f1 f2))"
  let ?st0 = "fst (snd (delete_chat_session st c NoFault NoFault))"
  have other: "id_sess s \<noteq> c" if "s \<in> set (chat_sessions st)" "user_id s \<noteq> user_id owner" for s
    using distinct_map_eq [OF assms(1) that(1) assms(2)] that(2) assms(3) by auto
  have same: "s = owner" if "s \<in> set (chat_sessions st)" "id_sess s = c" for s
    using distinct_map_eq [OF assms(1) that(1) assms(2)] that(2) assms(3) by simp
  have c1: "\<forall>s \<in> set (chat_sessions st). user_id s \<noteq> user_id owner \<longrightarrow>
            s \<in> set (chat_sessions ?st') \<and>
            (\<forall>m \<in> set (chat_messages st). chat_id m = id_sess s \<longrightarrow>
               m \<in> set (chat_messages ?st'))"
  proof (intro ballI impI conjI)
    fix s assume s: "s \<in> set (chat_sessions st)" "user_id s \<noteq> user_id owner"
    from s other [OF s] show "s \<in> set (chat_sessions ?st')"
      by (simp add: delete_chat_session_sessions_mem)
    fix m assume "m \<in> set (chat_messages st)" "chat_id m = id_sess s"
    with other [OF s] show "m \<in> set (chat_messages ?st')"
      by (simp add: delete_chat_session_messages_keep)
  qed
  have c2: "\<forall>s \<in> set (chat_sessions st). s \<notin> set (chat_sessions ?st') \<longrightarrow> s = owner"
    using same by (auto simp: delete_chat_session_sessions_mem)
  have c3: "\<forall>m \<in> set (chat_messages st). m \<notin> set (chat_messages ?st') \<longrightarrow> chat_id m = c"
    using delete_chat_session_messages_keep by blast
  have c4: "set (chat_sessions ?st') \<subseteq> set (chat_sessions st)"
    by (auto simp: delete_chat_session_sessions_mem)
  have c5: "set (chat_messages ?st') \<subseteq> set (chat_messages st)"
    using delete_chat_session_messages_sub by blast
  have c6: "\<forall>rows. get_chat_messages st c f = (200, MessagesBody rows) \<longrightarrow>
            (\<forall>m \<in> set rows. m \<in> set (chat_messages st) \<and> chat_id m = c)"
  proof (intro allI impI)
    fix rows assume "get_chat_messages st c f = (200, MessagesBody rows)"
    from get_chat_messages_rows [OF this]
    show "\<forall>m \<in> set rows. m \<in> set (chat_messages st) \<and> chat_id m = c" by simp
  qed
  have c7: "fst (delete_chat_session st c NoFault NoFault) =
           (200, MessageBody (js ''Chat session deleted successfully''))"
    by (rule delete_chat_session_no_fault)
  then have ok: "fst (fst (delete_chat_session st c NoFault NoFault)) = 200" by simp
  have c8: "owner \<notin> set (chat_sessions ?st0)"
    using delete_chat_session_ok [OF ok] assms(3) by simp
  have c9: "chat_messages ?st0 = filter (\<lambda>m. chat_id m \<noteq> c) (chat_messages st)"
    using delete_chat_session_ok [OF ok] by simp
  have c10: "get_chat_messages st c NoFault =
           (200, MessagesBody (sort_key created_at
                   (filter (\<lambda>m. chat_id m = c) (chat_messages st))))"
    by (simp add: get_chat_messages_def select_messages_def respond_def)
  show ?thesis
    by (rule conjI [OF c1 conjI [OF c2 conjI [OF c3 conjI [OF c4 conjI [OF c5
          conjI [OF c6 conjI [OF c7 conjI [OF c8 conjI [OF c9 c10]]]]]]]]])
qed

theorem delete_and_read_scoped_witness:
  "\<lparr>id_sess = 3, user_id = js ''u2'', title = js ''Hey'', created_at_sess = 4, updated_at = 7\<rparr>
     \<in> set (chat_sessions (fst (snd (delete_chat_session st_two 0 NoFault NoFault)))) \<and>
   \<lparr>role = js ''user'', content = js ''Hey'', created_at = 5, id_msg = 4, chat_id = 3\<rparr>
     \<in> set (chat_messages (fst (snd (delete_chat_session st_two 0 NoFault NoFault)))) \<and>
   \<lparr>id_sess = 0, user_id = js ''u1'', title = js ''Hello'', created_at_sess = 0, updated_at = 3\<rparr>
     \<notin> set (chat_sessions (fst (snd (delete_chat_session st_two 0 NoFault NoFault))))"
proof -
  let ?o = "\<lparr>id_sess = 0, user_id = js ''u1'', title = js ''Hello'',
             created_at_sess = 0, updated_at = 3\<rparr>"
  let ?s = "\<lparr>id_sess = 3, user_id = js ''u2'', title = js ''Hey'',
             created_at_sess = 4, updated_at = 7\<rparr>"
  let ?m = "\<lparr>role = js ''user'', content = js ''Hey'', created_at = 5, id_msg = 4, chat_id = 3\<rparr>"
  have h: "distinct (map id_sess (chat_sessions st_two))" "?o \<in> set (chat_sessions st_two)"
    "id_sess ?o = 0"
    by (simp_all add: st_two_def)
  have s: "?s \<in> set (chat_sessions st_two)" "user_id ?s \<noteq> user_id ?o"
    by (simp_all add: st_two_def js_def)
  have m: "?m \<in> set (chat_messages st_two)" "chat_id ?m = id_sess ?s"
    by (simp_all add: st_two_def)
  note t = delete_and_read_scoped [OF h, of NoFault NoFault NoFault]
  from t have
    "\<forall>s \<in> set (chat_sessions st_two). user_id s \<noteq> user_id ?o \<longrightarrow>
        s \<in> set (chat_sessions (fst (snd (delete_chat_session st_two 0 NoFault NoFault)))) \<and>
        (\<forall>m \<in> set (chat_messages st_two). chat_id m = id_sess s \<longrightarrow>
           m \<in> set (chat_messages (fst (snd (delete_chat_session st_two 0 NoFault NoFault)))))"
    by (rule conjunct1)
  with s m have a: "?s \<in> set (chat_sessions (fst (snd (delete_chat_session st_two 0 NoFault NoFault))))"
    and b: "?m \<in> set (chat_messages (fst (snd (delete_chat_session st_two 0 NoFault NoFault))))"
    by blast+
  from t have c: "?o \<notin> set (chat_sessions (fst (snd (delete_chat_session st_two 0 NoFault NoFault))))"
    by (elim conjE)
  from a b c show ?thesis by (intro conjI)
qed

text \<open>
  Claim C9 as stated fails: when the message deletion throws, the request is reported
  as failed although the session-row deletion has not failed; it is never called.
\<close>

theorem delete_fails_without_session_row_failure_counterexample:
  "fst (delete_chat_session st_u1 0 (Thrown (js ''fetch failed'')) NoFault) =
     (500, ErrorBody (js ''Failed to delete chat session'') None) \<and>
   snd (snd (delete_chat_session st_u1 0 (Thrown (js ''fetch failed'')) NoFault)) =
     [DeleteMessages 0]"
  by (simp add: delete_chat_session_def delete_messages_def respond_def)

text \<open>
  Claim C9, as the code has it: the message deletion is called first, the session-row
  deletion second. If the message deletion throws, the request is reported as failed
  and the session-row deletion is not called. Otherwise the response is decided by the
  session-row deletion alone, on the store the message deletion left: failed exactly
  when it fails, whatever the message deletion answered. After a successful request the
  messages of the session are gone and the session is in no user's session list.
\<close>

theorem delete_chat_session_cascade:
  "(snd (snd (delete_chat_session st c f1 f2)) = [DeleteMessages c, DeleteSession c] \<or>
    (\<exists>e. f1 = Thrown e) \<and> snd (snd (delete_chat_session st c f1 f2)) = [DeleteMessages c]) \<and>
   ((\<exists>e. f1 = Thrown e) \<longrightarrow>
      fst (delete_chat_session st c f1 f2) =
        (500, ErrorBody (js ''Failed to delete chat session'') None) \<and>
      snd (snd (delete_chat_session st c f1 f2)) = [DeleteMessages c]) \<and>
   ((\<forall>e. f1 \<noteq> Thrown e) \<longrightarrow>
      fst (delete_chat_session st c f1 f2) =
        (case delete_session
                (case delete_messages st c f1 of
                   Data s \<Rightarrow> s | Error e \<Rightarrow> st | Throws e \<Rightarrow> st)
                c f2 of
           Data s \<Rightarrow> (200, MessageBody (js ''Chat session deleted successfully''))
         | Error e \<Rightarrow> (500, ErrorBody (js ''Failed to delete chat session'') None)
         | Throws e \<Rightarrow> (500, ErrorBody (js ''Failed to delete chat session'') None))) \<and>
   (fst (fst (delete_chat_session st c f1 f2)) = 200 \<longrightarrow>
      get_chat_messages (fst (snd (delete_chat_session st c f1 f2))) c NoFault =
        (200, MessagesBody []) \<and>
      (\<forall>uid f rows.
         get_chat_sessions (fst (snd (delete_chat_session st c f1 f2))) uid f =
           (200, SessionsBody rows) \<longrightarrow> c \<notin> id_sess ` set rows))"
proof -
  let ?r = "delete_chat_session st c f1 f2"
  have c1: "snd (snd ?r) = [DeleteMessages c, DeleteSession c] \<or>
    (\<exists>e. f1 = Thrown e) \<and> snd (snd ?r) = [DeleteMessages c]"
    by (auto simp: delete_chat_session_calls)
  have c2: "(\<exists>e. f1 = Thrown e) \<longrightarrow>
      fst ?r = (500, ErrorBody (js ''Failed to delete chat session'') None) \<and>
      snd (snd ?r) = [DeleteMessages c]"
    by (auto simp: delete_chat_session_thrown delete_chat_session_calls)
  have c3: "(\<forall>e. f1 \<noteq> Thrown e) \<longrightarrow>
      fst ?r =
        (case delete_session
                (case delete_messages st c f1 of
                   Data s \<Rightarrow> s | Error e \<Rightarrow> st | Throws e \<Rightarrow> st)
                c f2 of
           Data s \<Rightarrow> (200, MessageBody (js ''Chat session deleted successfully''))
         | Error e \<Rightarrow> (500, ErrorBody (js ''Failed to delete chat session'') None)
         | Throws e \<Rightarrow> (500, ErrorBody (js ''Failed to delete chat session'') None))"
    using delete_chat_session_status by blast
  have c4: "fst (fst ?r) = 200 \<longrightarrow>
      get_chat_messages (fst (snd ?r)) c NoFault = (200, MessagesBody []) \<and>
      (\<forall>uid f rows.
         get_chat_sessions (fst (snd ?r)) uid f = (200, SessionsBody rows) \<longrightarrow>
           c \<notin> id_sess ` set rows)"
  proof (intro impI conjI allI)
    assume ok: "fst (fst ?r) = 200"
    note d = delete_chat_session_ok [OF ok]
    from d show "get_chat_messages (fst (snd ?r)) c NoFault = (200, MessagesBody [])"
      by (simp add: get_chat_messages_def select_messages_def respond_def)
    fix uid f rows
    assume g: "get_chat_sessions (fst (snd ?r)) uid f = (200, SessionsBody rows)"
    from get_chat_sessions_rows [OF g] d show "c \<notin> id_sess ` set rows"
      by auto
  qed
  show ?thesis
    by (rule conjI [OF c1 conjI [OF c2 conjI [OF c3 c4]]])
qed

theorem delete_chat_session_cascade_witness:
  "snd (snd (delete_chat_session st_u1 0 NoFault NoFault)) = [DeleteMessages 0, DeleteSession 0] \<and>
   fst (delete_chat_session st_u1 0 NoFault NoFault) =
     (200, MessageBody (js ''Chat session deleted successfully'')) \<and>
   get_chat_messages (fst (snd (delete_chat_session st_u1 0 NoFault NoFault))) 0 NoFault =
     (200, MessagesBody []) \<and>
   get_chat_sessions (fst (snd (delete_chat_session st_u1 0 NoFault NoFault))) (js ''u1'') NoFault =
     (200, SessionsBody []) \<and>
   fst (delete_chat_session st_u1 0 (Thrown (js ''down'')) NoFault) =
     (500, ErrorBody (js ''Failed to delete chat session'') None) \<and>
   fst (delete_chat_session st_u1 0 (ErrorResult (js ''timeout'')) NoFault) =
     (500, ErrorBody (js ''Failed to delete chat session'') None) \<and>
   fst (delete_chat_session st_u1 0 NoFault (ErrorResult (js ''denied''))) =
     (500, ErrorBody (js ''Failed to delete chat session'') None)"
proof -
  have n: "\<forall>e. NoFault \<noteq> Thrown e" "\<forall>e. ErrorResult (js ''timeout'') \<noteq> Thrown e"
    "\<exists>e. Thrown (js ''down'') = Thrown e"
    by simp_all
  have s: "get_chat_sessions (fst (snd (delete_chat_session st_u1 0 NoFault NoFault))) (js ''u1'') NoFault =
     (200, SessionsBody [])"
    by code_simp
  have e1: "(case delete_session
                (case delete_messages st_u1 0 NoFault of
                   Data s \<Rightarrow> s | Error e \<Rightarrow> st_u1 | Throws e \<Rightarrow> st_u1)
                0 NoFault of
           Data s \<Rightarrow> (200, MessageBody (js ''Chat session deleted successfully''))
         | Error e \<Rightarrow> (500, ErrorBody (js ''Failed to delete chat session'') None)
         | Throws e \<Rightarrow> (500, ErrorBody (js ''Failed to delete chat session'') None)) =
        (200, MessageBody (js ''Chat session deleted successfully''))"
    by (simp add: delete_session_def delete_messages_def respond_def st_u1_def)
  have e2: "(case delete_session
                (case delete_messages st_u1 0 (ErrorResult (js ''timeout'')) of
                   Data s \<Rightarrow> s | Error e \<Rightarrow> st_u1 | Throws e \<Rightarrow> st_u1)
                0 NoFault of
           Data s \<Rightarrow> (200, MessageBody (js ''Chat session deleted successfully''))
         | Error e \<Rightarrow> (500, ErrorBody (js ''Failed to delete chat session'') None)
         | Throws e \<Rightarrow> (500, ErrorBody (js ''Failed to delete chat session'') None)) =
        (500, ErrorBody (js ''Failed to delete chat session'') None)"
    by (simp add: delete_session_def delete_messages_def respond_def st_u1_def)
  have e3: "(case delete_session
                (case delete_messages st_u1 0 NoFault of
                   Data s \<Rightarrow> s | Error e \<Rightarrow> st_u1 | Throws e \<Rightarrow> st_u1)
                0 (ErrorResult (js ''denied'')) of
           Data s \<Rightarrow> (200, MessageBody (js ''Chat session deleted successfully''))
         | Error e \<Rightarrow> (500, ErrorBody (js ''Failed to delete chat session'') None)
         | Throws e \<Rightarrow> (500, ErrorBody (js ''Failed to delete chat session'') None)) =
        (500, ErrorBody (js ''Failed to delete chat session'') None)"
    by (simp add: delete_session_def delete_messages_def respond_def)
  note a = delete_chat_session_cascade [of st_u1 0 NoFault NoFault]
  note b = delete_chat_session_cascade [of st_u1 0 "Thrown (js ''down'')" NoFault]
  note d = delete_chat_session_cascade [of st_u1 0 "ErrorResult (js ''timeout'')" NoFault]
  note g = delete_chat_session_cascade [of st_u1 0 NoFault "ErrorResult (js ''denied'')"]
  from a n have a1: "snd (snd (delete_chat_session st_u1 0 NoFault NoFault)) =
      [DeleteMessages 0, DeleteSession 0]" by blast
  from a n(1) e1 have a2: "fst (delete_chat_session st_u1 0 NoFault NoFault) =
     (200, MessageBody (js ''Chat session deleted successfully''))" by simp
  then have ok: "fst (fst (delete_chat_session st_u1 0 NoFault NoFault)) = 200" by simp
  from a ok have a3: "get_chat_messages (fst (snd (delete_chat_session st_u1 0 NoFault NoFault))) 0 NoFault =
     (200, MessagesBody [])" by blast
  from b n(3) have b1: "fst (delete_chat_session st_u1 0 (Thrown (js ''down'')) NoFault) =
     (500, ErrorBody (js ''Failed to delete chat session'') None)" by blast
  from d n(2) e2 have d1: "fst (delete_chat_session st_u1 0 (ErrorResult (js ''timeout'')) NoFault) =
     (500, ErrorBody (js ''Failed to delete chat session'') None)" by simp
  from g n(1) e3 have g1: "fst (delete_chat_session st_u1 0 NoFault (ErrorResult (js ''denied''))) =
     (500, ErrorBody (js ''Failed to delete chat session'') None)" by simp
  from a1 a2 a3 s b1 d1 g1 show ?thesis by (intro conjI)
qed


end
